theory Spec2Isabelle
  imports Main
begin

section \<open>The world store service: a shallow embedding\<close>

text \<open>
  The repository holds two variants of one Flask service, \<^verbatim>\<open>src/server.py\<close> and
  \<^verbatim>\<open>src/backend/server.py\<close>. Each has a handler \<^verbatim>\<open>get_world\<close> (GET /api/world) and a
  handler \<^verbatim>\<open>save_world\<close> (POST /api/world) over one JSON file and its \<^verbatim>\<open>.bak\<close> sibling.
  The handlers are modelled as functions from the request and the state of the operating
  system (the files, what was done to them, what was printed) to the response and the new
  state. Every \<^verbatim>\<open>raise\<close> of the Python is a value \<open>Inl e\<close>; the \<^verbatim>\<open>except Exception\<close> of
  each handler is the case distinction at its end.
\<close>

subsection \<open>JSON values as Python objects\<close>

text \<open>
  What \<^verbatim>\<open>json.load\<close> and \<^verbatim>\<open>request.get_json\<close> return: \<^verbatim>\<open>None\<close>, a \<^verbatim>\<open>bool\<close>, an \<^verbatim>\<open>int\<close>, a
  \<^verbatim>\<open>str\<close>, a \<^verbatim>\<open>list\<close> or a \<^verbatim>\<open>dict\<close> with string keys (in insertion order). Floating-point
  numbers are left out of the model.
\<close>

datatype json =
    JNull
  | JBool bool
  | JInt int
  | JStr string
  | JArr "json list"
  | JObj "(string \<times> json) list"

subsection \<open>Exceptions\<close>

datatype exn =
    FileNotFoundError string
  | PermissionError string
  | JSONDecodeError string
  | BadRequest string
  | UnsupportedMediaType string
  | AttributeError string
  | TypeError string
  | KeyError string

definition sq :: "string \<Rightarrow> string" where
  "sq s = CHR 0x27 # s @ [CHR 0x27]"

text \<open>\<^verbatim>\<open>str(e)\<close>, the text that the handlers put into the error response.\<close>

fun str_exn :: "exn \<Rightarrow> string" where
  "str_exn (FileNotFoundError p) = ''[Errno 2] No such file or directory: '' @ sq p"
| "str_exn (PermissionError p) = ''[Errno 13] Permission denied: '' @ sq p"
| "str_exn (JSONDecodeError m) = m"
| "str_exn (BadRequest d) = ''400 Bad Request: '' @ d"
| "str_exn (UnsupportedMediaType d) = ''415 Unsupported Media Type: '' @ d"
| "str_exn (AttributeError m) = m"
| "str_exn (TypeError m) = m"
| "str_exn (KeyError k) = sq k"

text \<open>Sequencing of computations that may raise.\<close>

definition bindE :: "exn + 'a \<Rightarrow> ('a \<Rightarrow> exn + 'b) \<Rightarrow> exn + 'b" where
  "bindE m f = (case m of Inl e \<Rightarrow> Inl e | Inr x \<Rightarrow> f x)"

fun mapE :: "('a \<Rightarrow> exn + 'b) \<Rightarrow> 'a list \<Rightarrow> exn + 'b list" where
  "mapE f [] = Inr []"
| "mapE f (x # xs) =
     (case f x of
        Inl e \<Rightarrow> Inl e
      | Inr y \<Rightarrow> (case mapE f xs of Inl e \<Rightarrow> Inl e | Inr ys \<Rightarrow> Inr (y # ys)))"

subsection \<open>The Python operations that the diagnostic lines apply to the data\<close>

fun type_name :: "json \<Rightarrow> string" where
  "type_name JNull = ''NoneType''"
| "type_name (JBool b) = ''bool''"
| "type_name (JInt i) = ''int''"
| "type_name (JStr s) = ''str''"
| "type_name (JArr xs) = ''list''"
| "type_name (JObj kvs) = ''dict''"

text \<open>\<^verbatim>\<open>data.get(key, default)\<close>: only a \<^verbatim>\<open>dict\<close> has the method.\<close>

fun dict_get :: "json \<Rightarrow> string \<Rightarrow> json \<Rightarrow> exn + json" where
  "dict_get (JObj kvs) k d = Inr (case map_of kvs k of None \<Rightarrow> d | Some v \<Rightarrow> v)"
| "dict_get v k d =
     Inl (AttributeError (sq (type_name v) @ '' object has no attribute '' @ sq ''get''))"

text \<open>\<^verbatim>\<open>len(v)\<close>.\<close>

fun py_len :: "json \<Rightarrow> exn + nat" where
  "py_len (JStr s) = Inr (length s)"
| "py_len (JArr xs) = Inr (length xs)"
| "py_len (JObj kvs) = Inr (length kvs)"
| "py_len v = Inl (TypeError (''object of type '' @ sq (type_name v) @ '' has no len()''))"

text \<open>The truth value of \<^verbatim>\<open>v\<close> in \<^verbatim>\<open>if v:\<close>.\<close>

fun py_bool :: "json \<Rightarrow> bool" where
  "py_bool JNull = False"
| "py_bool (JBool b) = b"
| "py_bool (JInt i) = (i \<noteq> 0)"
| "py_bool (JStr s) = (s \<noteq> [])"
| "py_bool (JArr xs) = (xs \<noteq> [])"
| "py_bool (JObj kvs) = (kvs \<noteq> [])"

text \<open>\<^verbatim>\<open>for obj in v\<close>: the elements of a list, the keys of a dict, the characters of a string.\<close>

fun py_iter :: "json \<Rightarrow> exn + json list" where
  "py_iter (JArr xs) = Inr xs"
| "py_iter (JObj kvs) = Inr (map (\<lambda>kv. JStr (fst kv)) kvs)"
| "py_iter (JStr s) = Inr (map (\<lambda>c. JStr [c]) s)"
| "py_iter v = Inl (TypeError (sq (type_name v) @ '' object is not iterable''))"

text \<open>\<^verbatim>\<open>obj[key]\<close> with a string key.\<close>

fun py_getitem :: "json \<Rightarrow> string \<Rightarrow> exn + json" where
  "py_getitem (JObj kvs) k = (case map_of kvs k of None \<Rightarrow> Inl (KeyError k) | Some v \<Rightarrow> Inr v)"
| "py_getitem (JArr xs) k = Inl (TypeError ''list indices must be integers or slices, not str'')"
| "py_getitem (JStr s) k = Inl (TypeError ''string indices must be integers'')"
| "py_getitem v k = Inl (TypeError (sq (type_name v) @ '' object is not subscriptable''))"

subsection \<open>The \<^verbatim>\<open>json\<close> module\<close>

text \<open>
  The standard library's reader and writer are not code of the repository: the handlers
  take them as a parameter. \<open>dumps J v\<close> is the text \<^verbatim>\<open>json.dump(v, f, indent=4)\<close> writes,
  \<open>loads J txt\<close> is what \<^verbatim>\<open>json.load\<close> makes of a file holding \<open>txt\<close>.
\<close>

record json_lib =
  dumps :: "json \<Rightarrow> string"
  loads :: "string \<Rightarrow> exn + json"

subsection \<open>The state of the operating system\<close>

text \<open>
  \<open>files\<close> maps a path to the text of the file there. \<open>readonly\<close> holds the paths at
  which \<^verbatim>\<open>open(p, 'w')\<close> fails (the model raises \<^verbatim>\<open>PermissionError\<close> there); a read fails
  where there is no file. \<open>trace\<close> lists the operations on files in the order they were
  attempted. \<open>stdout\<close> lists what the diagnostic \<^verbatim>\<open>print\<close> calls have written, as the
  values they format (the text of the lines is not modelled).
\<close>

datatype event =
    OpenRead string
  | OpenWrite string
  | Write string string

datatype log_line =
    LogReceived nat nat
  | LogFirstIds "json list"
  | LogTotalInstances nat
  | LogBackup nat
  | LogSaved string
  | LogError string

record os_state =
  files :: "string \<Rightarrow> string option"
  readonly :: "string set"
  trace :: "event list"
  stdout :: "log_line list"

type_synonym 'a io = "os_state \<Rightarrow> (exn + 'a) \<times> os_state"

definition returnIO :: "'a \<Rightarrow> 'a io" where
  "returnIO x s = (Inr x, s)"

definition liftE :: "exn + 'a \<Rightarrow> 'a io" where
  "liftE r s = (r, s)"

definition bindIO :: "'a io \<Rightarrow> ('a \<Rightarrow> 'b io) \<Rightarrow> 'b io" where
  "bindIO m f s = (case m s of (Inl e, s') \<Rightarrow> (Inl e, s') | (Inr x, s') \<Rightarrow> f x s')"

text \<open>\<^verbatim>\<open>os.path.exists(p)\<close>.\<close>

definition os_path_exists :: "string \<Rightarrow> bool io" where
  "os_path_exists p s = (Inr (files s p \<noteq> None), s)"

text \<open>\<^verbatim>\<open>open(p, 'r')\<close>; the result stands for the file object and is the text to be read.\<close>

definition open_read :: "string \<Rightarrow> string io" where
  "open_read p s =
     (let s1 = s\<lparr>trace := trace s @ [OpenRead p]\<rparr>
      in case files s p of
           None \<Rightarrow> (Inl (FileNotFoundError p), s1)
         | Some txt \<Rightarrow> (Inr txt, s1))"

text \<open>\<^verbatim>\<open>open(p, 'w')\<close>: where it succeeds the file exists and is empty from then on.\<close>

definition open_write :: "string \<Rightarrow> unit io" where
  "open_write p s =
     (let s1 = s\<lparr>trace := trace s @ [OpenWrite p]\<rparr>
      in if p \<in> readonly s then (Inl (PermissionError p), s1)
         else (Inr (), s1\<lparr>files := (files s)(p \<mapsto> [])\<rparr>))"

text \<open>Writing text to the file opened at \<open>p\<close>: appended to what the file holds.\<close>

definition file_write :: "string \<Rightarrow> string \<Rightarrow> unit io" where
  "file_write p txt s =
     (Inr (), s\<lparr>files := (files s)(p \<mapsto> (case files s p of None \<Rightarrow> txt | Some old \<Rightarrow> old @ txt)),
               trace := trace s @ [Write p txt]\<rparr>)"

definition print :: "log_line \<Rightarrow> unit io" where
  "print l s = (Inr (), s\<lparr>stdout := stdout s @ [l]\<rparr>)"

definition json_load :: "json_lib \<Rightarrow> string \<Rightarrow> json io" where
  "json_load J txt = liftE (loads J txt)"

definition json_dump :: "json_lib \<Rightarrow> json \<Rightarrow> string \<Rightarrow> unit io" where
  "json_dump J v p = file_write p (dumps J v)"

subsection \<open>Flask: the request and the responses\<close>

text \<open>
  A request is its body, \<open>None\<close> when it carries none. A response is its status and the
  JSON value of its body.
\<close>

type_synonym request = "string option"

type_synonym response = "nat \<times> json"

text \<open>
  Modelled from the spec: \<^verbatim>\<open>request.get_json()\<close> is code of Flask, not of the repository.
  A body that does not parse raises (section 7, "parse failure (malformed JSON) on ... the
  request body"). A request without a body raises as well, inside \<^verbatim>\<open>get_json\<close>: it carries
  no JSON content type and Flask refuses to load JSON from it (with that content type and
  an empty body the exception is \<^verbatim>\<open>BadRequest\<close> instead, to the same effect). \<^verbatim>\<open>data\<close> is
  \<^verbatim>\<open>None\<close> only for the body \<^verbatim>\<open>null\<close>.
\<close>

definition no_json_content_type :: string where
  "no_json_content_type =
     ''Did not attempt to load JSON data because the request Content-Type was not ''
     @ sq ''application/json'' @ ''.''"

definition get_json :: "json_lib \<Rightarrow> request \<Rightarrow> exn + json" where
  "get_json J req =
     (case req of
        None \<Rightarrow> Inl (UnsupportedMediaType no_json_content_type)
      | Some txt \<Rightarrow>
          (case loads J txt of
             Inl e \<Rightarrow> Inl (BadRequest (''Failed to decode JSON object: '' @ str_exn e))
           | Inr v \<Rightarrow> Inr v))"

definition jsonify :: "json \<Rightarrow> response" where
  "jsonify v = (200, v)"

text \<open>\<^verbatim>\<open>jsonify({'error': str(e)}), 500\<close>\<close>

definition error_response :: "exn \<Rightarrow> response" where
  "error_response e = (500, JObj [(''error'', JStr (str_exn e))])"

text \<open>\<^verbatim>\<open>jsonify({'message': 'World data saved successfully'})\<close>\<close>

definition saved_response :: response where
  "saved_response = jsonify (JObj [(''message'', JStr ''World data saved successfully'')])"

subsection \<open>\<^verbatim>\<open>src/server.py\<close>\<close>

definition WORLD_DATA_PATH :: string where
  "WORLD_DATA_PATH = ''public/data/world.json''"

definition get_world :: "json_lib \<Rightarrow> os_state \<Rightarrow> response \<times> os_state" where
  "get_world J s =
     (case bindIO (open_read WORLD_DATA_PATH) (\<lambda>f. json_load J f) s of
        (Inr v, s') \<Rightarrow> (jsonify v, s')
      | (Inl e, s') \<Rightarrow> (error_response e, s'))"

text \<open>Lines 25 to 27: the backup of the current document.\<close>

definition create_backup :: "json_lib \<Rightarrow> unit io" where
  "create_backup J =
     bindIO (os_path_exists WORLD_DATA_PATH) (\<lambda>ex.
       if ex then
         bindIO (open_write (WORLD_DATA_PATH @ ''.bak'')) (\<lambda>_.
         bindIO (open_read WORLD_DATA_PATH) (\<lambda>orig.
         bindIO (json_load J orig) (\<lambda>orig_data.
         json_dump J orig_data (WORLD_DATA_PATH @ ''.bak''))))
       else returnIO ())"

text \<open>Lines 30 and 31: the new document.\<close>

definition write_world :: "json_lib \<Rightarrow> json \<Rightarrow> unit io" where
  "write_world J data =
     bindIO (open_write WORLD_DATA_PATH) (\<lambda>_. json_dump J data WORLD_DATA_PATH)"

definition save_world :: "json_lib \<Rightarrow> request \<Rightarrow> os_state \<Rightarrow> response \<times> os_state" where
  "save_world J req s =
     (case bindIO (liftE (get_json J req)) (\<lambda>data.
           bindIO (create_backup J) (\<lambda>_.
           write_world J data)) s of
        (Inr _, s') \<Rightarrow> (saved_response, s')
      | (Inl e, s') \<Rightarrow> (error_response e, s'))"

subsection \<open>\<^verbatim>\<open>src/backend/server.py\<close>\<close>

definition backend_WORLD_DATA_PATH :: string where
  "backend_WORLD_DATA_PATH = ''./data/world.json''"

definition backend_get_world :: "json_lib \<Rightarrow> os_state \<Rightarrow> response \<times> os_state" where
  "backend_get_world J s =
     (case bindIO (open_read backend_WORLD_DATA_PATH) (\<lambda>f. json_load J f) s of
        (Inr v, s') \<Rightarrow> (jsonify v, s')
      | (Inl e, s') \<Rightarrow> (error_response e, s'))"

text \<open>\<^verbatim>\<open>len(data.get(key, []))\<close>, which lines 24 and 39 format.\<close>

definition count_of :: "json \<Rightarrow> string \<Rightarrow> exn + nat" where
  "count_of data key = bindE (dict_get data key (JArr [])) py_len"

text \<open>\<^verbatim>\<open>for obj in data.get('objects', [])\<close>\<close>

definition objects_of :: "json \<Rightarrow> exn + json list" where
  "objects_of data = bindE (dict_get data ''objects'' (JArr [])) py_iter"

text \<open>Lines 24 to 32: the diagnostic output about the received data.\<close>

definition log_received :: "json \<Rightarrow> unit io" where
  "log_received data =
     bindIO (liftE (count_of data ''objects'')) (\<lambda>n.
     bindIO (liftE (count_of data ''spawners'')) (\<lambda>m.
     bindIO (print (LogReceived n m)) (\<lambda>_.
     bindIO (liftE (dict_get data ''objects'' JNull)) (\<lambda>objs.
       if py_bool objs then
         bindIO (liftE (bindE (objects_of data) (mapE (\<lambda>obj. py_getitem obj ''id'')))) (\<lambda>ids.
         bindIO (print (LogFirstIds (take 3 ids))) (\<lambda>_.
         bindIO (liftE (bindE (objects_of data)
                   (mapE (\<lambda>obj. bindE (dict_get obj ''instances'' (JArr [])) py_len)))) (\<lambda>ns.
         print (LogTotalInstances (sum_list ns)))))
       else returnIO ()))))"

text \<open>Lines 35 to 40: the backup of the current document.\<close>

definition backend_create_backup :: "json_lib \<Rightarrow> unit io" where
  "backend_create_backup J =
     bindIO (os_path_exists backend_WORLD_DATA_PATH) (\<lambda>ex.
       if ex then
         bindIO (open_write (backend_WORLD_DATA_PATH @ ''.bak'')) (\<lambda>_.
         bindIO (open_read backend_WORLD_DATA_PATH) (\<lambda>orig.
         bindIO (json_load J orig) (\<lambda>orig_data.
         bindIO (liftE (count_of orig_data ''objects'')) (\<lambda>n.
         bindIO (print (LogBackup n)) (\<lambda>_.
         json_dump J orig_data (backend_WORLD_DATA_PATH @ ''.bak''))))))
       else returnIO ())"

text \<open>Lines 43 to 45: the new document.\<close>

definition backend_write_world :: "json_lib \<Rightarrow> json \<Rightarrow> unit io" where
  "backend_write_world J data =
     bindIO (open_write backend_WORLD_DATA_PATH) (\<lambda>_.
     bindIO (json_dump J data backend_WORLD_DATA_PATH) (\<lambda>_.
     print (LogSaved backend_WORLD_DATA_PATH)))"

definition backend_save_world :: "json_lib \<Rightarrow> request \<Rightarrow> os_state \<Rightarrow> response \<times> os_state" where
  "backend_save_world J req s =
     (case bindIO (liftE (get_json J req)) (\<lambda>data.
           bindIO (log_received data) (\<lambda>_.
           bindIO (backend_create_backup J) (\<lambda>_.
           backend_write_world J data))) s of
        (Inr _, s') \<Rightarrow> (saved_response, s')
      | (Inl e, s') \<Rightarrow>
          (error_response e, snd (print (LogError (str_exn e)) s')))"

subsection \<open>A reader and a writer of JSON text\<close>

text \<open>
  An instance of \<open>json_lib\<close>, on which the theorems below are evaluated at concrete
  requests and files. \<open>encode 0\<close> writes a value the way \<^verbatim>\<open>json.dump\<close> does with
  \<^verbatim>\<open>indent=4\<close>; \<open>py_loads\<close> reads JSON text by recursive descent, with the length of the
  text as the bound of the recursion.
\<close>

definition dq :: char where "dq = CHR 0x22"
definition bs :: char where "bs = CHR 0x5C"

definition show_digit :: "nat \<Rightarrow> char" where
  "show_digit d = char_of (48 + d)"

fun show_nat_fuel :: "nat \<Rightarrow> nat \<Rightarrow> string" where
  "show_nat_fuel 0 n = []"
| "show_nat_fuel (Suc k) n = (if n < 10 then [show_digit n] else show_nat_fuel k (n div 10) @ [show_digit (n mod 10)])"

definition show_nat :: "nat \<Rightarrow> string" where "show_nat n = show_nat_fuel (Suc n) n"

definition show_int :: "int \<Rightarrow> string" where
  "show_int i = (if i < 0 then CHR ''-'' # show_nat (nat (- i)) else show_nat (nat i))"

definition escape_char :: "char \<Rightarrow> string" where
  "escape_char c =
     (if c = dq then [bs, dq]
      else if c = bs then [bs, bs]
      else if c = CHR 0x0A then [bs, CHR ''n'']
      else if c = CHR 0x0D then [bs, CHR ''r'']
      else if c = CHR 0x09 then [bs, CHR ''t'']
      else [c])"

definition quote :: "string \<Rightarrow> string" where
  "quote s = dq # concat (map escape_char s) @ [dq]"

fun join :: "string \<Rightarrow> string list \<Rightarrow> string" where
  "join sep [] = []"
| "join sep [x] = x"
| "join sep (x # y # ys) = x @ sep @ join sep (y # ys)"

definition newline_indent :: "nat \<Rightarrow> string" where
  "newline_indent lvl = CHR 0x0A # replicate (4 * lvl) CHR '' ''"

fun encode :: "nat \<Rightarrow> json \<Rightarrow> string"
and encode_items :: "nat \<Rightarrow> json list \<Rightarrow> string list"
and encode_members :: "nat \<Rightarrow> (string \<times> json) list \<Rightarrow> string list" where
  "encode lvl JNull = ''null''"
| "encode lvl (JBool b) = (if b then ''true'' else ''false'')"
| "encode lvl (JInt i) = show_int i"
| "encode lvl (JStr s) = quote s"
| "encode lvl (JArr xs) =
     (if xs = [] then ''[]''
      else ''['' @ newline_indent (Suc lvl)
           @ join (CHR '','' # newline_indent (Suc lvl)) (encode_items (Suc lvl) xs)
           @ newline_indent lvl @ '']'')"
| "encode lvl (JObj kvs) =
     (if kvs = [] then ''{}''
      else ''{'' @ newline_indent (Suc lvl)
           @ join (CHR '','' # newline_indent (Suc lvl)) (encode_members (Suc lvl) kvs)
           @ newline_indent lvl @ ''}'')"
| "encode_items lvl [] = []"
| "encode_items lvl (x # xs) = encode lvl x # encode_items lvl xs"
| "encode_members lvl [] = []"
| "encode_members lvl (kv # kvs) = (quote (fst kv) @ '': '' @ encode lvl (snd kv)) # encode_members lvl kvs"

definition is_ws :: "char \<Rightarrow> bool" where
  "is_ws c = (c = CHR '' '' \<or> c = CHR 0x0A \<or> c = CHR 0x0D \<or> c = CHR 0x09)"

definition skip_ws :: "string \<Rightarrow> string" where
  "skip_ws = dropWhile is_ws"

definition is_digit :: "char \<Rightarrow> bool" where
  "is_digit c = (48 \<le> (of_char c :: nat) \<and> (of_char c :: nat) \<le> 57)"

definition read_nat :: "string \<Rightarrow> nat" where
  "read_nat ds = foldl (\<lambda>n c. 10 * n + (of_char c - 48)) 0 ds"

definition unescape :: "char \<Rightarrow> char option" where
  "unescape c =
     (if c = dq then Some dq
      else if c = bs then Some bs
      else if c = CHR ''/'' then Some CHR ''/''
      else if c = CHR ''n'' then Some (CHR 0x0A)
      else if c = CHR ''r'' then Some (CHR 0x0D)
      else if c = CHR ''t'' then Some (CHR 0x09)
      else None)"

fun read_string :: "string \<Rightarrow> string \<Rightarrow> (string \<times> string) option" where
  "read_string acc [] = None"
| "read_string acc (c # cs) =
     (if c = dq then Some (rev acc, cs)
      else if c = bs then
        (case cs of
           [] \<Rightarrow> None
         | d # ds \<Rightarrow> (case unescape d of None \<Rightarrow> None | Some x \<Rightarrow> read_string (x # acc) ds))
      else read_string (c # acc) cs)"

definition read_number :: "string \<Rightarrow> (json \<times> string) option" where
  "read_number cs =
     (let neg = (take 1 cs = ''-'');
          r = (if neg then drop 1 cs else cs);
          ds = takeWhile is_digit r
      in if ds = [] then None
         else Some (JInt (if neg then - int (read_nat ds) else int (read_nat ds)),
                    dropWhile is_digit r))"

text \<open>A key that comes again keeps its place and takes the later value, as in a \<^verbatim>\<open>dict\<close>.\<close>

fun dict_set :: "(string \<times> json) list \<Rightarrow> string \<Rightarrow> json \<Rightarrow> (string \<times> json) list" where
  "dict_set [] k v = [(k, v)]"
| "dict_set (kv # kvs) k v = (if fst kv = k then (k, v) # kvs else kv # dict_set kvs k v)"

definition dict_of :: "(string \<times> json) list \<Rightarrow> (string \<times> json) list" where
  "dict_of kvs = foldl (\<lambda>d kv. dict_set d (fst kv) (snd kv)) [] kvs"

fun parse_value :: "nat \<Rightarrow> string \<Rightarrow> (json \<times> string) option"
and parse_items :: "nat \<Rightarrow> string \<Rightarrow> (json list \<times> string) option"
and parse_members :: "nat \<Rightarrow> string \<Rightarrow> ((string \<times> json) list \<times> string) option" where
  "parse_value 0 cs = None"
| "parse_value (Suc n) cs =
     (case skip_ws cs of
        [] \<Rightarrow> None
      | c # r \<Rightarrow>
          if c = CHR ''n'' then (if take 3 r = ''ull'' then Some (JNull, drop 3 r) else None)
          else if c = CHR ''t'' then (if take 3 r = ''rue'' then Some (JBool True, drop 3 r) else None)
          else if c = CHR ''f'' then (if take 4 r = ''alse'' then Some (JBool False, drop 4 r) else None)
          else if c = dq then
            (case read_string [] r of None \<Rightarrow> None | Some (s, r') \<Rightarrow> Some (JStr s, r'))
          else if c = CHR ''['' then
            (if take 1 (skip_ws r) = '']'' then Some (JArr [], drop 1 (skip_ws r))
             else (case parse_items n r of None \<Rightarrow> None | Some (xs, r') \<Rightarrow> Some (JArr xs, r')))
          else if c = CHR ''{'' then
            (if take 1 (skip_ws r) = ''}'' then Some (JObj [], drop 1 (skip_ws r))
             else (case parse_members n r of None \<Rightarrow> None | Some (kvs, r') \<Rightarrow> Some (JObj (dict_of kvs), r')))
          else read_number (c # r))"
| "parse_items 0 cs = None"
| "parse_items (Suc n) cs =
     (case parse_value n cs of
        None \<Rightarrow> None
      | Some (x, r) \<Rightarrow>
          (case skip_ws r of
             [] \<Rightarrow> None
           | c # r' \<Rightarrow>
               if c = CHR '','' then
                 (case parse_items n r' of None \<Rightarrow> None | Some (xs, r'') \<Rightarrow> Some (x # xs, r''))
               else if c = CHR '']'' then Some ([x], r')
               else None))"
| "parse_members 0 cs = None"
| "parse_members (Suc n) cs =
     (case skip_ws cs of
        [] \<Rightarrow> None
      | q # r0 \<Rightarrow>
          if q \<noteq> dq then None
          else
            (case read_string [] r0 of
               None \<Rightarrow> None
             | Some (k, r1) \<Rightarrow>
                 (case skip_ws r1 of
                    [] \<Rightarrow> None
                  | col # r2 \<Rightarrow>
                      if col \<noteq> CHR '':'' then None
                      else
                        (case parse_value n r2 of
                           None \<Rightarrow> None
                         | Some (v, r3) \<Rightarrow>
                             (case skip_ws r3 of
                                [] \<Rightarrow> None
                              | c # r4 \<Rightarrow>
                                  if c = CHR '','' then
                                    (case parse_members n r4 of
                                       None \<Rightarrow> None
                                     | Some (kvs, r5) \<Rightarrow> Some ((k, v) # kvs, r5))
                                  else if c = CHR ''}'' then Some ([(k, v)], r4)
                                  else None)))))"

definition py_loads :: "string \<Rightarrow> exn + json" where
  "py_loads txt =
     (case parse_value (2 * length txt + 2) txt of
        None \<Rightarrow> Inl (JSONDecodeError ''Expecting value'')
      | Some (v, r) \<Rightarrow> if skip_ws r = [] then Inr v else Inl (JSONDecodeError ''Extra data''))"

definition py_json :: json_lib where
  "py_json = \<lparr>dumps = encode 0, loads = py_loads\<rparr>"

subsection \<open>Concrete documents, requests and states\<close>

text \<open>The scenario of the specification: the seeded document and the posted one.\<close>

definition doc_seed :: json where
  "doc_seed = JObj [(''objects'', JArr []), (''spawners'', JArr [])]"

definition doc_a :: json where
  "doc_a = JObj [(''objects'', JArr [JObj [(''id'', JStr ''a''),
                                         (''instances'', JArr [JInt 1, JInt 2])]]),
                 (''spawners'', JArr [])]"

definition body_a :: string where
  "body_a = ''{\"objects\": [{\"id\": \"a\", \"instances\": [1, 2]}], \"spawners\": []}''"

definition body_seed :: string where
  "body_seed = ''{\"objects\": [], \"spawners\": []}''"

text \<open>A machine with no file, and one with a file at a path.\<close>

definition no_files :: os_state where
  "no_files = \<lparr>files = (\<lambda>p. None), readonly = {}, trace = [], stdout = []\<rparr>"

definition with_file :: "string \<Rightarrow> string \<Rightarrow> os_state \<Rightarrow> os_state" where
  "with_file p txt s = s\<lparr>files := (files s)(p \<mapsto> txt)\<rparr>"


text \<open>The operations that a call added to the trace.\<close>

definition new_events :: "os_state \<Rightarrow> os_state \<Rightarrow> event list" where
  "new_events s s' = drop (length (trace s)) (trace s')"

fun event_path :: "event \<Rightarrow> string" where
  "event_path (OpenRead p) = p"
| "event_path (OpenWrite p) = p"
| "event_path (Write p txt) = p"

text \<open>The seeded document at the path of each variant, and no backup yet.\<close>

definition seeded :: os_state where
  "seeded = with_file WORLD_DATA_PATH body_seed
              (with_file backend_WORLD_DATA_PATH body_seed no_files)"



definition corrupted :: os_state where
  "corrupted = with_file (WORLD_DATA_PATH @ ''.bak'') body_seed
                 (with_file (backend_WORLD_DATA_PATH @ ''.bak'') body_seed
                   (with_file WORLD_DATA_PATH ''not json''
                     (with_file backend_WORLD_DATA_PATH ''not json'' no_files)))"

definition seeded_array :: os_state where
  "seeded_array = with_file WORLD_DATA_PATH ''[]''
                    (with_file backend_WORLD_DATA_PATH ''[]'' no_files)"


text \<open>
  Two machines that hold the same at the paths of the two variants: the documents, the
  backups, and whether each can be written.
\<close>

definition same_disk :: "os_state \<Rightarrow> os_state \<Rightarrow> bool" where
  "same_disk s t =
     (files s WORLD_DATA_PATH = files t backend_WORLD_DATA_PATH \<and>
      files s (WORLD_DATA_PATH @ ''.bak'') = files t (backend_WORLD_DATA_PATH @ ''.bak'') \<and>
      (WORLD_DATA_PATH \<in> readonly s) = (backend_WORLD_DATA_PATH \<in> readonly t) \<and>
      (WORLD_DATA_PATH @ ''.bak'' \<in> readonly s)
        = (backend_WORLD_DATA_PATH @ ''.bak'' \<in> readonly t))"

section \<open>Properties\<close>

subsection \<open>What each step does to the state\<close>

lemmas io_defs = bindIO_def returnIO_def liftE_def os_path_exists_def open_read_def
  open_write_def file_write_def print_def json_load_def json_dump_def

lemma saved_not_error: "saved_response \<noteq> error_response e" "error_response e \<noteq> saved_response"
  by (simp_all add: saved_response_def error_response_def jsonify_def)

lemma jsonify_not_error: "jsonify v \<noteq> error_response e"
  by (simp add: error_response_def jsonify_def)

lemma jsonify_eq: "(jsonify a = jsonify b) = (a = b)"
  by (simp add: jsonify_def)

lemma error_not_jsonify: "error_response e \<noteq> jsonify v"
  by (simp add: error_response_def jsonify_def)

lemma get_world_eq:
  "get_world J s =
     (case files s WORLD_DATA_PATH of
        None \<Rightarrow> (error_response (FileNotFoundError WORLD_DATA_PATH),
                 s\<lparr>trace := trace s @ [OpenRead WORLD_DATA_PATH]\<rparr>)
      | Some txt \<Rightarrow>
          (case loads J txt of
             Inl e \<Rightarrow> (error_response e, s\<lparr>trace := trace s @ [OpenRead WORLD_DATA_PATH]\<rparr>)
           | Inr v \<Rightarrow> (jsonify v, s\<lparr>trace := trace s @ [OpenRead WORLD_DATA_PATH]\<rparr>)))"
  by (simp add: get_world_def io_defs Let_def split: option.splits sum.splits)

lemma create_backup_eq:
  "create_backup J s =
     (case files s WORLD_DATA_PATH of
        None \<Rightarrow> (Inr (), s)
      | Some txt \<Rightarrow>
          if WORLD_DATA_PATH @ ''.bak'' \<in> readonly s then
            (Inl (PermissionError (WORLD_DATA_PATH @ ''.bak'')),
             s\<lparr>trace := trace s @ [OpenWrite (WORLD_DATA_PATH @ ''.bak'')]\<rparr>)
          else
            (case loads J txt of
               Inl e \<Rightarrow>
                 (Inl e, s\<lparr>files := (files s)(WORLD_DATA_PATH @ ''.bak'' \<mapsto> []),
                           trace := trace s @ [OpenWrite (WORLD_DATA_PATH @ ''.bak''),
                                               OpenRead WORLD_DATA_PATH]\<rparr>)
             | Inr orig \<Rightarrow>
                 (Inr (), s\<lparr>files := (files s)(WORLD_DATA_PATH @ ''.bak'' \<mapsto> dumps J orig),
                            trace := trace s @ [OpenWrite (WORLD_DATA_PATH @ ''.bak''),
                                                OpenRead WORLD_DATA_PATH,
                                                Write (WORLD_DATA_PATH @ ''.bak'') (dumps J orig)]\<rparr>)))"
  by (simp add: create_backup_def io_defs Let_def split: option.splits sum.splits)

lemma write_world_eq:
  "write_world J data s =
     (if WORLD_DATA_PATH \<in> readonly s then
        (Inl (PermissionError WORLD_DATA_PATH), s\<lparr>trace := trace s @ [OpenWrite WORLD_DATA_PATH]\<rparr>)
      else
        (Inr (), s\<lparr>files := (files s)(WORLD_DATA_PATH \<mapsto> dumps J data),
                   trace := trace s @ [OpenWrite WORLD_DATA_PATH,
                                       Write WORLD_DATA_PATH (dumps J data)]\<rparr>))"
  by (simp add: write_world_def io_defs Let_def)

lemma save_world_eq:
  "save_world J req s =
     (case get_json J req of
        Inl e \<Rightarrow> (error_response e, s)
      | Inr data \<Rightarrow>
          (case create_backup J s of
             (Inl e, s1) \<Rightarrow> (error_response e, s1)
           | (Inr u, s1) \<Rightarrow>
               (case write_world J data s1 of
                  (Inl e, s2) \<Rightarrow> (error_response e, s2)
                | (Inr u', s2) \<Rightarrow> (saved_response, s2))))"
  by (simp add: save_world_def bindIO_def liftE_def split: sum.splits prod.splits)

text \<open>The diagnostic lines change nothing but the output.\<close>

lemma log_received_frame: "\<exists>out. snd (log_received data s) = s\<lparr>stdout := out\<rparr>"
  by (rule exI [of _ "stdout (snd (log_received data s))"])
     (simp add: log_received_def io_defs split: sum.splits)

lemma log_received_cases:
  obtains (raises) e out where "log_received data s = (Inl e, s\<lparr>stdout := out\<rparr>)"
  | (returns) out where "log_received data s = (Inr (), s\<lparr>stdout := out\<rparr>)"
proof -
  from log_received_frame obtain out where out: "snd (log_received data s) = s\<lparr>stdout := out\<rparr>"
    by blast
  show thesis
  proof (cases "fst (log_received data s)")
    case (Inl e)
    with out have "log_received data s = (Inl e, s\<lparr>stdout := out\<rparr>)"
      by (simp add: prod_eq_iff)
    then show thesis by (rule raises)
  next
    case (Inr u)
    with out have "log_received data s = (Inr (), s\<lparr>stdout := out\<rparr>)"
      by (simp add: prod_eq_iff)
    then show thesis by (rule returns)
  qed
qed

lemma log_received_state_independent:
  "fst (log_received data s) = fst (log_received data s')"
  by (simp add: log_received_def io_defs split: sum.splits)

lemma log_received_count:
  "fst (log_received data s) = Inr () \<Longrightarrow> \<exists>n. count_of data ''objects'' = Inr n"
  by (auto simp: log_received_def io_defs split: sum.splits)

lemma log_received_array:
  "log_received (JArr xs) s
     = (Inl (AttributeError (sq ''list'' @ '' object has no attribute '' @ sq ''get'')), s)"
  by (simp add: log_received_def io_defs count_of_def bindE_def)

lemma log_received_null:
  "log_received JNull s
     = (Inl (AttributeError (sq ''NoneType'' @ '' object has no attribute '' @ sq ''get'')), s)"
  by (simp add: log_received_def io_defs count_of_def bindE_def)

lemma count_of_array: "count_of (JArr xs) key = Inl (AttributeError (sq ''list'' @ '' object has no attribute '' @ sq ''get''))"
  by (simp add: count_of_def bindE_def)

lemma backend_get_world_eq:
  "backend_get_world J s =
     (case files s backend_WORLD_DATA_PATH of
        None \<Rightarrow> (error_response (FileNotFoundError backend_WORLD_DATA_PATH),
                 s\<lparr>trace := trace s @ [OpenRead backend_WORLD_DATA_PATH]\<rparr>)
      | Some txt \<Rightarrow>
          (case loads J txt of
             Inl e \<Rightarrow> (error_response e, s\<lparr>trace := trace s @ [OpenRead backend_WORLD_DATA_PATH]\<rparr>)
           | Inr v \<Rightarrow> (jsonify v, s\<lparr>trace := trace s @ [OpenRead backend_WORLD_DATA_PATH]\<rparr>)))"
  by (simp add: backend_get_world_def io_defs Let_def split: option.splits sum.splits)

lemma backend_create_backup_eq:
  "backend_create_backup J s =
     (case files s backend_WORLD_DATA_PATH of
        None \<Rightarrow> (Inr (), s)
      | Some txt \<Rightarrow>
          if backend_WORLD_DATA_PATH @ ''.bak'' \<in> readonly s then
            (Inl (PermissionError (backend_WORLD_DATA_PATH @ ''.bak'')),
             s\<lparr>trace := trace s @ [OpenWrite (backend_WORLD_DATA_PATH @ ''.bak'')]\<rparr>)
          else
            (case bindE (loads J txt) (\<lambda>orig. bindE (count_of orig ''objects'') (\<lambda>n. Inr (orig, n))) of
               Inl e \<Rightarrow>
                 (Inl e, s\<lparr>files := (files s)(backend_WORLD_DATA_PATH @ ''.bak'' \<mapsto> []),
                           trace := trace s @ [OpenWrite (backend_WORLD_DATA_PATH @ ''.bak''),
                                               OpenRead backend_WORLD_DATA_PATH]\<rparr>)
             | Inr (orig, n) \<Rightarrow>
                 (Inr (), s\<lparr>files := (files s)(backend_WORLD_DATA_PATH @ ''.bak'' \<mapsto> dumps J orig),
                            trace := trace s @ [OpenWrite (backend_WORLD_DATA_PATH @ ''.bak''),
                                                OpenRead backend_WORLD_DATA_PATH,
                                                Write (backend_WORLD_DATA_PATH @ ''.bak'') (dumps J orig)],
                            stdout := stdout s @ [LogBackup n]\<rparr>)))"
  by (simp add: backend_create_backup_def io_defs bindE_def Let_def split: option.splits sum.splits)

lemma backend_write_world_eq:
  "backend_write_world J data s =
     (if backend_WORLD_DATA_PATH \<in> readonly s then
        (Inl (PermissionError backend_WORLD_DATA_PATH),
         s\<lparr>trace := trace s @ [OpenWrite backend_WORLD_DATA_PATH]\<rparr>)
      else
        (Inr (), s\<lparr>files := (files s)(backend_WORLD_DATA_PATH \<mapsto> dumps J data),
                   trace := trace s @ [OpenWrite backend_WORLD_DATA_PATH,
                                       Write backend_WORLD_DATA_PATH (dumps J data)],
                   stdout := stdout s @ [LogSaved backend_WORLD_DATA_PATH]\<rparr>))"
  by (simp add: backend_write_world_def io_defs Let_def)

lemma backend_save_world_eq:
  "backend_save_world J req s =
     (case get_json J req of
        Inl e \<Rightarrow> (error_response e, s\<lparr>stdout := stdout s @ [LogError (str_exn e)]\<rparr>)
      | Inr data \<Rightarrow>
          (case log_received data s of
             (Inl e, s0) \<Rightarrow> (error_response e, s0\<lparr>stdout := stdout s0 @ [LogError (str_exn e)]\<rparr>)
           | (Inr u0, s0) \<Rightarrow>
          (case backend_create_backup J s0 of
             (Inl e, s1) \<Rightarrow> (error_response e, s1\<lparr>stdout := stdout s1 @ [LogError (str_exn e)]\<rparr>)
           | (Inr u, s1) \<Rightarrow>
               (case backend_write_world J data s1 of
                  (Inl e, s2) \<Rightarrow> (error_response e, s2\<lparr>stdout := stdout s2 @ [LogError (str_exn e)]\<rparr>)
                | (Inr u', s2) \<Rightarrow> (saved_response, s2)))))"
  by (simp add: backend_save_world_def bindIO_def liftE_def print_def split: sum.splits prod.splits)

subsection \<open>What follows for a call that returned success\<close>

lemma save_world_success:
  assumes "get_json J req = Inr doc" and "fst (save_world J req s) = saved_response"
  shows "files (snd (save_world J req s)) WORLD_DATA_PATH = Some (dumps J doc)"
  using assms
  by (auto simp: save_world_eq create_backup_eq write_world_eq saved_not_error
           split: option.splits sum.splits if_splits)

lemma backend_save_world_success:
  assumes "get_json J req = Inr doc" and "fst (backend_save_world J req s) = saved_response"
  shows "files (snd (backend_save_world J req s)) backend_WORLD_DATA_PATH = Some (dumps J doc)"
proof (cases rule: log_received_cases [of doc s])
  case (raises e out)
  with assms show ?thesis by (simp add: backend_save_world_eq saved_not_error)
next
  case (returns out)
  with assms show ?thesis
    by (auto simp: backend_save_world_eq backend_create_backup_eq backend_write_world_eq
          saved_not_error split: option.splits sum.splits if_splits prod.splits)
qed

lemma save_world_backup:
  assumes "fst (get_world J s) = jsonify doc1" and "fst (save_world J req s) = saved_response"
  shows "files (snd (save_world J req s)) (WORLD_DATA_PATH @ ''.bak'') = Some (dumps J doc1)"
  using assms
  by (auto simp: get_world_eq save_world_eq create_backup_eq write_world_eq saved_not_error
        jsonify_not_error error_not_jsonify jsonify_eq
      split: option.splits sum.splits if_splits)

lemma save_world_no_backup:
  assumes "files s WORLD_DATA_PATH = None"
  shows "files (snd (save_world J req s)) (WORLD_DATA_PATH @ ''.bak'')
           = files s (WORLD_DATA_PATH @ ''.bak'') \<and>
         WORLD_DATA_PATH @ ''.bak'' \<notin> event_path ` set (new_events s (snd (save_world J req s)))"
  using assms
  by (auto simp: save_world_eq create_backup_eq write_world_eq new_events_def
      split: option.splits sum.splits if_splits)

lemma backend_save_world_backup:
  assumes "fst (backend_get_world J s) = jsonify doc1"
    and "fst (backend_save_world J req s) = saved_response"
  shows "files (snd (backend_save_world J req s)) (backend_WORLD_DATA_PATH @ ''.bak'')
           = Some (dumps J doc1)"
proof (cases "get_json J req")
  case (Inl e)
  with assms show ?thesis by (simp add: backend_save_world_eq saved_not_error)
next
  case (Inr doc)
  show ?thesis
  proof (cases rule: log_received_cases [of doc s])
    case (raises e out)
    with assms Inr show ?thesis by (simp add: backend_save_world_eq saved_not_error)
  next
    case (returns out)
    with assms Inr show ?thesis
      by (auto simp: backend_get_world_eq backend_save_world_eq backend_create_backup_eq
            backend_write_world_eq saved_not_error jsonify_not_error error_not_jsonify jsonify_eq bindE_def
          split: option.splits sum.splits if_splits prod.splits)
  qed
qed

lemma backend_save_world_no_backup:
  assumes "files s backend_WORLD_DATA_PATH = None"
  shows "files (snd (backend_save_world J req s)) (backend_WORLD_DATA_PATH @ ''.bak'')
           = files s (backend_WORLD_DATA_PATH @ ''.bak'') \<and>
         backend_WORLD_DATA_PATH @ ''.bak''
           \<notin> event_path ` set (new_events s (snd (backend_save_world J req s)))"
proof (cases "get_json J req")
  case (Inl e)
  with assms show ?thesis by (simp add: backend_save_world_eq new_events_def)
next
  case (Inr doc)
  show ?thesis
  proof (cases rule: log_received_cases [of doc s])
    case (raises e out)
    with assms Inr show ?thesis by (simp add: backend_save_world_eq new_events_def)
  next
    case (returns out)
    with assms Inr show ?thesis
      by (auto simp: backend_save_world_eq backend_create_backup_eq
            backend_write_world_eq new_events_def
          split: option.splits sum.splits if_splits prod.splits)
  qed
qed

lemma save_world_twice:
  assumes rt: "loads J (dumps J doc) = Inr doc" and gj: "get_json J req = Inr doc"
    and ok1: "fst (save_world J req s) = saved_response"
    and ok2: "fst (save_world J req (snd (save_world J req s))) = saved_response"
  shows "files (snd (save_world J req (snd (save_world J req s)))) WORLD_DATA_PATH
           = Some (dumps J doc) \<and>
         files (snd (save_world J req (snd (save_world J req s)))) (WORLD_DATA_PATH @ ''.bak'')
           = Some (dumps J doc)"
proof -
  let ?s1 = "snd (save_world J req s)"
  from save_world_success [OF gj ok1] have "files ?s1 WORLD_DATA_PATH = Some (dumps J doc)" .
  with rt have "fst (get_world J ?s1) = jsonify doc"
    by (simp add: get_world_eq)
  from save_world_backup [OF this ok2] save_world_success [OF gj ok2] show ?thesis by simp
qed

lemma backend_save_world_twice:
  assumes rt: "loads J (dumps J doc) = Inr doc" and gj: "get_json J req = Inr doc"
    and ok1: "fst (backend_save_world J req s) = saved_response"
    and ok2: "fst (backend_save_world J req (snd (backend_save_world J req s))) = saved_response"
  shows "files (snd (backend_save_world J req (snd (backend_save_world J req s))))
           backend_WORLD_DATA_PATH = Some (dumps J doc) \<and>
         files (snd (backend_save_world J req (snd (backend_save_world J req s))))
           (backend_WORLD_DATA_PATH @ ''.bak'') = Some (dumps J doc)"
proof -
  let ?s1 = "snd (backend_save_world J req s)"
  from backend_save_world_success [OF gj ok1]
  have "files ?s1 backend_WORLD_DATA_PATH = Some (dumps J doc)" .
  with rt have "fst (backend_get_world J ?s1) = jsonify doc"
    by (simp add: backend_get_world_eq)
  from backend_save_world_backup [OF this ok2] backend_save_world_success [OF gj ok2]
  show ?thesis by simp
qed

lemma save_world_second_succeeds:
  assumes "loads J (dumps J doc) = Inr doc" and "get_json J req = Inr doc"
    and "fst (save_world J req s) = saved_response"
    and "WORLD_DATA_PATH @ ''.bak'' \<notin> readonly s"
  shows "fst (save_world J req (snd (save_world J req s))) = saved_response"
  using assms
  by (auto simp: save_world_eq create_backup_eq write_world_eq saved_not_error
      split: option.splits sum.splits if_splits)

lemma backend_first_call:
  assumes gj: "get_json J req = Inr doc"
    and ok1: "fst (backend_save_world J req s) = saved_response"
  shows "fst (log_received doc s) = Inr () \<and>
         backend_WORLD_DATA_PATH \<notin> readonly s \<and>
         readonly (snd (backend_save_world J req s)) = readonly s"
proof (cases rule: log_received_cases [of doc s])
  case (raises e out)
  with assms show ?thesis by (simp add: backend_save_world_eq saved_not_error)
next
  case (returns out)
  with assms show ?thesis
    by (auto simp: backend_save_world_eq backend_create_backup_eq backend_write_world_eq
          saved_not_error split: option.splits sum.splits if_splits prod.splits)
qed

lemma backend_save_world_second_succeeds:
  assumes rt: "loads J (dumps J doc) = Inr doc" and gj: "get_json J req = Inr doc"
    and ok1: "fst (backend_save_world J req s) = saved_response"
    and bak: "backend_WORLD_DATA_PATH @ ''.bak'' \<notin> readonly s"
  shows "fst (backend_save_world J req (snd (backend_save_world J req s))) = saved_response"
proof -
  let ?s1 = "snd (backend_save_world J req s)"
  from backend_first_call [OF gj ok1]
  have log: "fst (log_received doc s) = Inr ()"
    and w: "backend_WORLD_DATA_PATH \<notin> readonly ?s1"
    and b: "backend_WORLD_DATA_PATH @ ''.bak'' \<notin> readonly ?s1"
    using bak by simp_all
  from log_received_count [OF log] obtain n where n: "count_of doc ''objects'' = Inr n" ..
  from backend_save_world_success [OF gj ok1]
  have f: "files ?s1 backend_WORLD_DATA_PATH = Some (dumps J doc)" .
  show ?thesis
  proof (cases rule: log_received_cases [of doc ?s1])
    case (raises e out)
    then have "fst (log_received doc ?s1) = Inl e" by simp
    with log log_received_state_independent [of doc ?s1 s] show ?thesis by simp
  next
    case (returns out)
    with gj rt n w b f show ?thesis
      by (simp add: backend_save_world_eq backend_create_backup_eq backend_write_world_eq
            bindE_def)
  qed
qed

text \<open>
  \<^verbatim>\<open>src/server.py\<close> has no diagnostic lines: it stores a document of any shape.
\<close>

lemma save_world_any_shape:
  assumes "get_json J req = Inr doc"
    and "files s WORLD_DATA_PATH = None \<or>
         (\<exists>cur orig. files s WORLD_DATA_PATH = Some cur \<and> loads J cur = Inr orig \<and>
            WORLD_DATA_PATH @ ''.bak'' \<notin> readonly s)"
    and "WORLD_DATA_PATH \<notin> readonly s"
  shows "fst (save_world J req s) = saved_response \<and>
         files (snd (save_world J req s)) WORLD_DATA_PATH = Some (dumps J doc)"
  using assms
  by (auto simp: save_world_eq create_backup_eq write_world_eq)

text \<open>
  The two variants agree, in the status they answer with and in the files they leave,
  wherever no diagnostic line of \<^verbatim>\<open>src/backend/server.py\<close> raises: on the received data
  (lines 24 to 32) and on the current document (line 39).
\<close>

lemma variants_agree_get:
  assumes "same_disk s t"
  shows "fst (fst (get_world J s)) = fst (fst (backend_get_world J t)) \<and>
         (files s WORLD_DATA_PATH \<noteq> None \<longrightarrow>
            fst (get_world J s) = fst (backend_get_world J t)) \<and>
         same_disk (snd (get_world J s)) (snd (backend_get_world J t))"
  using assms
  by (auto simp: same_disk_def get_world_eq backend_get_world_eq error_response_def jsonify_def
      split: option.splits sum.splits)

lemma variants_agree_save:
  assumes disk: "same_disk s t"
    and req: "get_json J req = Inl e \<or>
              get_json J req = Inr doc \<and> fst (log_received doc t) = Inr ()"
    and cur: "\<And>cur orig. files t backend_WORLD_DATA_PATH = Some cur \<Longrightarrow> loads J cur = Inr orig
                \<Longrightarrow> \<exists>n. count_of orig ''objects'' = Inr n"
  shows "fst (fst (save_world J req s)) = fst (fst (backend_save_world J req t)) \<and>
         same_disk (snd (save_world J req s)) (snd (backend_save_world J req t))"
proof (cases "get_json J req")
  case (Inl e')
  with disk show ?thesis
    by (simp add: save_world_eq backend_save_world_eq error_response_def same_disk_def)
next
  case (Inr doc')
  with req have log: "fst (log_received doc' t) = Inr ()" by auto
  show ?thesis
  proof (cases rule: log_received_cases [of doc' t])
    case (raises e' out)
    with log show ?thesis by simp
  next
    case (returns out)
    show ?thesis
    proof (cases "files t backend_WORLD_DATA_PATH")
      case None
      with disk Inr returns show ?thesis
        by (simp add: save_world_eq backend_save_world_eq create_backup_eq write_world_eq
              backend_create_backup_eq backend_write_world_eq error_response_def
              saved_response_def jsonify_def same_disk_def)
    next
      case (Some cur')
      show ?thesis
      proof (cases "loads J cur'")
        case (Inl e')
        with disk Inr returns Some show ?thesis
          by (simp add: save_world_eq backend_save_world_eq create_backup_eq write_world_eq
                backend_create_backup_eq backend_write_world_eq error_response_def
                saved_response_def jsonify_def same_disk_def bindE_def)
      next
        case (Inr orig)
        from cur [OF Some Inr] obtain n where "count_of orig ''objects'' = Inr n" ..
        with disk \<open>get_json J req = Inr doc'\<close> returns Some Inr show ?thesis
          by (simp add: save_world_eq backend_save_world_eq create_backup_eq write_world_eq
                backend_create_backup_eq backend_write_world_eq error_response_def
                saved_response_def jsonify_def same_disk_def bindE_def)
      qed
    qed
  qed
qed

subsection \<open>Evaluation at the concrete documents and machines\<close>

lemma loads_body_seed: "loads py_json body_seed = Inr doc_seed" by code_simp

lemma loads_body_a: "loads py_json body_a = Inr doc_a" by code_simp

lemma loads_dumps_doc_a: "loads py_json (dumps py_json doc_a) = Inr doc_a" by code_simp

lemma loads_dumps_doc_seed: "loads py_json (dumps py_json doc_seed) = Inr doc_seed" by code_simp

lemma loads_not_json: "loads py_json ''not json'' = Inl (JSONDecodeError ''Expecting value'')" by code_simp

lemma loads_empty_array: "loads py_json ''[]'' = Inr (JArr [])" by code_simp

lemma dumps_empty_array: "dumps py_json (JArr []) = ''[]''" by code_simp
lemma dumps_null: "dumps py_json JNull = ''null''" by code_simp

lemma get_json_body_a: "get_json py_json (Some body_a) = Inr doc_a"
  by (simp add: get_json_def loads_body_a)


lemma get_json_empty_array: "get_json py_json (Some ''[]'') = Inr (JArr [])"
  by (simp add: get_json_def loads_empty_array)

lemma log_received_doc_a:
  "log_received doc_a s =
     (Inr (), s\<lparr>stdout := stdout s @ [LogReceived 1 0, LogFirstIds [JStr ''a''], LogTotalInstances 2]\<rparr>)"
  by (simp add: log_received_def io_defs count_of_def objects_of_def bindE_def doc_a_def)

lemma log_doc_a_ok: "fst (log_received doc_a s) = Inr ()"
  by (simp add: log_received_doc_a)

lemma count_of_doc_seed: "count_of doc_seed ''objects'' = Inr 0"
  by (simp add: count_of_def bindE_def doc_seed_def)

lemma no_files_simps:
  "files no_files p = None" "readonly no_files = {}" "trace no_files = []"
  by (simp_all add: no_files_def)

lemma seeded_simps:
  "files seeded WORLD_DATA_PATH = Some body_seed"
  "files seeded backend_WORLD_DATA_PATH = Some body_seed"
  "files seeded (WORLD_DATA_PATH @ ''.bak'') = None"
  "files seeded (backend_WORLD_DATA_PATH @ ''.bak'') = None"
  "readonly seeded = {}"
  "trace seeded = []"
  by (simp_all add: seeded_def with_file_def no_files_def WORLD_DATA_PATH_def backend_WORLD_DATA_PATH_def)



lemma corrupted_simps:
  "files corrupted WORLD_DATA_PATH = Some ''not json''"
  "files corrupted backend_WORLD_DATA_PATH = Some ''not json''"
  "files corrupted (WORLD_DATA_PATH @ ''.bak'') = Some body_seed"
  "files corrupted (backend_WORLD_DATA_PATH @ ''.bak'') = Some body_seed"
  "readonly corrupted = {}"
  "trace corrupted = []"
  by (simp_all add: corrupted_def with_file_def no_files_def
        WORLD_DATA_PATH_def backend_WORLD_DATA_PATH_def)

lemma seeded_array_simps:
  "files seeded_array WORLD_DATA_PATH = Some ''[]''"
  "files seeded_array backend_WORLD_DATA_PATH = Some ''[]''"
  "files seeded_array (WORLD_DATA_PATH @ ''.bak'') = None"
  "files seeded_array (backend_WORLD_DATA_PATH @ ''.bak'') = None"
  "readonly seeded_array = {}"
  "trace seeded_array = []"
  by (simp_all add: seeded_array_def with_file_def no_files_def
        WORLD_DATA_PATH_def backend_WORLD_DATA_PATH_def)

lemma save_seeded:
  "fst (save_world py_json (Some body_a) seeded) = saved_response"
  by (simp add: save_world_eq create_backup_eq write_world_eq get_json_body_a seeded_simps loads_body_seed)

lemma backend_save_seeded:
  "fst (backend_save_world py_json (Some body_a) seeded) = saved_response"
  by (simp add: backend_save_world_eq backend_create_backup_eq backend_write_world_eq
        get_json_body_a log_received_doc_a seeded_simps loads_body_seed bindE_def count_of_doc_seed)

lemma get_seeded:
  "fst (get_world py_json seeded) = jsonify doc_seed"
  "fst (backend_get_world py_json seeded) = jsonify doc_seed"
  by (simp_all add: get_world_eq backend_get_world_eq seeded_simps loads_body_seed)

subsection \<open>The claims\<close>

text \<open>
  C1 (round trip): for every document \<open>doc\<close> that the \<^verbatim>\<open>json\<close> module reads back from what
  it writes, a GetWorld that follows a SaveWorld of \<open>doc\<close> that returned success answers
  with status 200 and \<open>doc\<close>. Both variants.
\<close>

theorem round_trip:
  assumes "loads J (dumps J doc) = Inr doc" and "get_json J req = Inr doc"
  shows "(fst (save_world J req s) = saved_response \<longrightarrow>
           fst (get_world J (snd (save_world J req s))) = jsonify doc) \<and>
         (fst (backend_save_world J req s) = saved_response \<longrightarrow>
           fst (backend_get_world J (snd (backend_save_world J req s))) = jsonify doc)"
  using assms save_world_success [of J req doc s] backend_save_world_success [of J req doc s]
  by (simp add: get_world_eq backend_get_world_eq)

theorem round_trip_witness:
  "loads py_json (dumps py_json doc_a) = Inr doc_a \<and>
   get_json py_json (Some body_a) = Inr doc_a \<and>
   fst (save_world py_json (Some body_a) seeded) = saved_response \<and>
   fst (get_world py_json (snd (save_world py_json (Some body_a) seeded))) = jsonify doc_a \<and>
   fst (backend_save_world py_json (Some body_a) seeded) = saved_response \<and>
   fst (backend_get_world py_json (snd (backend_save_world py_json (Some body_a) seeded)))
     = jsonify doc_a"
  using round_trip [OF loads_dumps_doc_a get_json_body_a, of seeded]
    loads_dumps_doc_a get_json_body_a save_seeded backend_save_seeded
  by simp

text \<open>
  C2 (backup correctness): when GetWorld answers with \<open>doc1\<close> and the SaveWorld that follows
  returns success, the backup path holds \<open>doc1\<close> as \<^verbatim>\<open>json.dump\<close> writes it; when no file
  exists at the main path, the call leaves the backup path as it was and no operation of
  the call is on the backup path. Both variants.
\<close>

theorem backup_correctness:
  "(fst (get_world J s) = jsonify doc1 \<and> fst (save_world J req s) = saved_response \<longrightarrow>
      files (snd (save_world J req s)) (WORLD_DATA_PATH @ ''.bak'') = Some (dumps J doc1)) \<and>
   (files s WORLD_DATA_PATH = None \<longrightarrow>
      files (snd (save_world J req s)) (WORLD_DATA_PATH @ ''.bak'')
        = files s (WORLD_DATA_PATH @ ''.bak'') \<and>
      WORLD_DATA_PATH @ ''.bak''
        \<notin> event_path ` set (new_events s (snd (save_world J req s)))) \<and>
   (fst (backend_get_world J s) = jsonify doc1 \<and>
    fst (backend_save_world J req s) = saved_response \<longrightarrow>
      files (snd (backend_save_world J req s)) (backend_WORLD_DATA_PATH @ ''.bak'')
        = Some (dumps J doc1)) \<and>
   (files s backend_WORLD_DATA_PATH = None \<longrightarrow>
      files (snd (backend_save_world J req s)) (backend_WORLD_DATA_PATH @ ''.bak'')
        = files s (backend_WORLD_DATA_PATH @ ''.bak'') \<and>
      backend_WORLD_DATA_PATH @ ''.bak''
        \<notin> event_path ` set (new_events s (snd (backend_save_world J req s))))"
  using save_world_backup [of J s doc1 req] save_world_no_backup [of s J req]
    backend_save_world_backup [of J s doc1 req] backend_save_world_no_backup [of s J req]
  by blast

theorem backup_correctness_witness:
  "fst (get_world py_json seeded) = jsonify doc_seed \<and>
   fst (save_world py_json (Some body_a) seeded) = saved_response \<and>
   files (snd (save_world py_json (Some body_a) seeded)) (WORLD_DATA_PATH @ ''.bak'')
     = Some (dumps py_json doc_seed) \<and>
   fst (backend_get_world py_json seeded) = jsonify doc_seed \<and>
   fst (backend_save_world py_json (Some body_a) seeded) = saved_response \<and>
   files (snd (backend_save_world py_json (Some body_a) seeded))
     (backend_WORLD_DATA_PATH @ ''.bak'') = Some (dumps py_json doc_seed) \<and>
   files no_files WORLD_DATA_PATH = None \<and>
   files (snd (save_world py_json (Some body_a) no_files)) (WORLD_DATA_PATH @ ''.bak'') = None \<and>
   files no_files backend_WORLD_DATA_PATH = None \<and>
   files (snd (backend_save_world py_json (Some body_a) no_files))
     (backend_WORLD_DATA_PATH @ ''.bak'') = None"
  using backup_correctness [of py_json seeded doc_seed "Some body_a"]
    backup_correctness [of py_json no_files doc_seed "Some body_a"]
    get_seeded save_seeded backend_save_seeded
  by (simp add: no_files_simps)

text \<open>
  C3 (malformed body): a SaveWorld whose body the \<^verbatim>\<open>json\<close> module rejects answers with
  status 500 and the text of the failure, and does no operation on any file: in
  \<^verbatim>\<open>src/server.py\<close> the state is the one before the call, in \<^verbatim>\<open>src/backend/server.py\<close> only
  the output has the error line more.
\<close>

theorem malformed_body:
  assumes "loads J txt = Inl e"
  shows "fst (save_world J (Some txt) s)
           = (500, JObj [(''error'', JStr (''400 Bad Request: Failed to decode JSON object: ''
                                           @ str_exn e))]) \<and>
         snd (save_world J (Some txt) s) = s \<and>
         fst (backend_save_world J (Some txt) s)
           = (500, JObj [(''error'', JStr (''400 Bad Request: Failed to decode JSON object: ''
                                           @ str_exn e))]) \<and>
         files (snd (backend_save_world J (Some txt) s)) = files s \<and>
         trace (snd (backend_save_world J (Some txt) s)) = trace s"
  using assms
  by (simp add: save_world_eq backend_save_world_eq get_json_def error_response_def)

theorem malformed_body_witness:
  "loads py_json ''not json'' = Inl (JSONDecodeError ''Expecting value'') \<and>
   fst (save_world py_json (Some ''not json'') seeded)
     = (500, JObj [(''error'',
          JStr ''400 Bad Request: Failed to decode JSON object: Expecting value'')]) \<and>
   snd (save_world py_json (Some ''not json'') seeded) = seeded \<and>
   fst (backend_save_world py_json (Some ''not json'') seeded)
     = (500, JObj [(''error'',
          JStr ''400 Bad Request: Failed to decode JSON object: Expecting value'')]) \<and>
   files (snd (backend_save_world py_json (Some ''not json'') seeded)) WORLD_DATA_PATH
     = Some body_seed \<and>
   files (snd (backend_save_world py_json (Some ''not json'') seeded)) backend_WORLD_DATA_PATH
     = Some body_seed"
  using malformed_body [OF loads_not_json, of seeded] loads_not_json
  by (simp add: seeded_simps)

text \<open>
  C4 (any JSON value is accepted), evaluated on \<^verbatim>\<open>src/backend/server.py\<close> at the body
  \<^verbatim>\<open>[]\<close>: line 24 calls \<^verbatim>\<open>data.get\<close> on the list, the \<^verbatim>\<open>AttributeError\<close> is answered with
  status 500, and no file is opened. The document is not stored.
\<close>

theorem backend_rejects_array:
  "get_json py_json (Some ''[]'') = Inr (JArr []) \<and>
   fst (backend_save_world py_json (Some ''[]'') seeded)
     = (500, JObj [(''error'', JStr (sq ''list'' @ '' object has no attribute '' @ sq ''get''))]) \<and>
   files (snd (backend_save_world py_json (Some ''[]'') seeded)) = files seeded \<and>
   new_events seeded (snd (backend_save_world py_json (Some ''[]'') seeded)) = []"
  by (simp add: backend_save_world_eq get_json_empty_array log_received_array
        error_response_def new_events_def)

text \<open>
  C5 (missing file): with no file at the document path, GetWorld answers with status 500
  and a body that holds the text of the \<^verbatim>\<open>FileNotFoundError\<close>; the handler returns that
  response (the exception does not leave it) and changes no file. Both variants.
\<close>

theorem missing_file:
  "(files s WORLD_DATA_PATH = None \<longrightarrow>
      fst (get_world J s)
        = (500, JObj [(''error'', JStr (str_exn (FileNotFoundError WORLD_DATA_PATH)))]) \<and>
      files (snd (get_world J s)) = files s) \<and>
   (files s backend_WORLD_DATA_PATH = None \<longrightarrow>
      fst (backend_get_world J s)
        = (500, JObj [(''error'', JStr (str_exn (FileNotFoundError backend_WORLD_DATA_PATH)))]) \<and>
      files (snd (backend_get_world J s)) = files s)"
  by (simp add: get_world_eq backend_get_world_eq error_response_def)

theorem missing_file_witness:
  "files no_files WORLD_DATA_PATH = None \<and>
   fst (get_world py_json no_files)
     = (500, JObj [(''error'',
          JStr (''[Errno 2] No such file or directory: '' @ sq ''public/data/world.json''))]) \<and>
   files no_files backend_WORLD_DATA_PATH = None \<and>
   fst (backend_get_world py_json no_files)
     = (500, JObj [(''error'',
          JStr (''[Errno 2] No such file or directory: '' @ sq ''./data/world.json''))])"
  using missing_file [of no_files py_json]
  by (simp add: no_files_simps WORLD_DATA_PATH_def backend_WORLD_DATA_PATH_def)

text \<open>
  C6 (idempotence): SaveWorld of \<open>doc\<close> twice in sequence. When the first call returned
  success and the backup path can be written, the second call returns success; and when
  both returned success, the main path and the backup path both hold \<open>doc\<close> as
  \<^verbatim>\<open>json.dump\<close> writes it, and GetWorld answers with \<open>doc\<close>. For every \<open>doc\<close> that the
  \<^verbatim>\<open>json\<close> module reads back from what it writes; both variants.
\<close>

theorem idempotence:
  assumes "loads J (dumps J doc) = Inr doc" and "get_json J req = Inr doc"
  shows "(let s1 = snd (save_world J req s); s2 = snd (save_world J req s1)
          in (fst (save_world J req s) = saved_response \<and>
              WORLD_DATA_PATH @ ''.bak'' \<notin> readonly s \<longrightarrow>
                fst (save_world J req s1) = saved_response) \<and>
             (fst (save_world J req s) = saved_response \<and>
              fst (save_world J req s1) = saved_response \<longrightarrow>
                files s2 WORLD_DATA_PATH = Some (dumps J doc) \<and>
                files s2 (WORLD_DATA_PATH @ ''.bak'') = Some (dumps J doc) \<and>
                fst (get_world J s2) = jsonify doc)) \<and>
         (let s1 = snd (backend_save_world J req s); s2 = snd (backend_save_world J req s1)
          in (fst (backend_save_world J req s) = saved_response \<and>
              backend_WORLD_DATA_PATH @ ''.bak'' \<notin> readonly s \<longrightarrow>
                fst (backend_save_world J req s1) = saved_response) \<and>
             (fst (backend_save_world J req s) = saved_response \<and>
              fst (backend_save_world J req s1) = saved_response \<longrightarrow>
                files s2 backend_WORLD_DATA_PATH = Some (dumps J doc) \<and>
                files s2 (backend_WORLD_DATA_PATH @ ''.bak'') = Some (dumps J doc) \<and>
                fst (backend_get_world J s2) = jsonify doc))"
  using assms save_world_twice [OF assms, of s] backend_save_world_twice [OF assms, of s]
    save_world_second_succeeds [OF assms, of s]
    backend_save_world_second_succeeds [OF assms, of s]
  by (simp add: Let_def get_world_eq backend_get_world_eq)

theorem idempotence_witness:
  "loads py_json (dumps py_json doc_a) = Inr doc_a \<and>
   get_json py_json (Some body_a) = Inr doc_a \<and>
   fst (save_world py_json (Some body_a) seeded) = saved_response \<and>
   WORLD_DATA_PATH @ ''.bak'' \<notin> readonly seeded \<and>
   (let s1 = snd (save_world py_json (Some body_a) seeded);
        s2 = snd (save_world py_json (Some body_a) s1)
    in fst (save_world py_json (Some body_a) s1) = saved_response \<and>
       files s2 WORLD_DATA_PATH = Some (dumps py_json doc_a) \<and>
       files s2 (WORLD_DATA_PATH @ ''.bak'') = Some (dumps py_json doc_a) \<and>
       fst (get_world py_json s2) = jsonify doc_a) \<and>
   fst (backend_save_world py_json (Some body_a) seeded) = saved_response \<and>
   backend_WORLD_DATA_PATH @ ''.bak'' \<notin> readonly seeded \<and>
   (let s1 = snd (backend_save_world py_json (Some body_a) seeded);
        s2 = snd (backend_save_world py_json (Some body_a) s1)
    in fst (backend_save_world py_json (Some body_a) s1) = saved_response \<and>
       files s2 backend_WORLD_DATA_PATH = Some (dumps py_json doc_a) \<and>
       files s2 (backend_WORLD_DATA_PATH @ ''.bak'') = Some (dumps py_json doc_a) \<and>
       fst (backend_get_world py_json s2) = jsonify doc_a)"
  using idempotence [OF loads_dumps_doc_a get_json_body_a, of seeded]
    loads_dumps_doc_a get_json_body_a save_seeded backend_save_seeded
  by (simp add: Let_def seeded_simps)



text \<open>
  C8 (absent body): a SaveWorld request with no body does not reach the backup or the
  write. \<^verbatim>\<open>request.get_json()\<close> raises on it, the handler answers with status 500 and the
  text of that exception, and no file is opened: in \<^verbatim>\<open>src/server.py\<close> the state is the one
  before the call, in \<^verbatim>\<open>src/backend/server.py\<close> only the output has the error line more
  (line 24 is not reached). For every machine, both variants.
\<close>

theorem absent_body_rejected:
  "fst (save_world J None s)
     = (500, JObj [(''error'',
          JStr (''415 Unsupported Media Type: '' @ no_json_content_type))]) \<and>
   snd (save_world J None s) = s \<and>
   fst (backend_save_world J None s)
     = (500, JObj [(''error'',
          JStr (''415 Unsupported Media Type: '' @ no_json_content_type))]) \<and>
   files (snd (backend_save_world J None s)) = files s \<and>
   trace (snd (backend_save_world J None s)) = trace s \<and>
   stdout (snd (backend_save_world J None s))
     = stdout s @ [LogError (''415 Unsupported Media Type: '' @ no_json_content_type)]"
  by (simp add: save_world_eq backend_save_world_eq get_json_def error_response_def)

text \<open>
  C8 as the specification words it (the handler obtains a null value, backs up
  the current file, writes the null value as the new document and returns success) fails
  on the seeded machine: neither variant returns success, the document stays the seeded
  one and is not \<^verbatim>\<open>null\<close>, and no backup appears.
\<close>

theorem absent_body_counterexample:
  "fst (save_world py_json None seeded) \<noteq> saved_response \<and>
   files (snd (save_world py_json None seeded)) WORLD_DATA_PATH = Some body_seed \<and>
   files (snd (save_world py_json None seeded)) (WORLD_DATA_PATH @ ''.bak'') = None \<and>
   fst (backend_save_world py_json None seeded) \<noteq> saved_response \<and>
   files (snd (backend_save_world py_json None seeded)) backend_WORLD_DATA_PATH
     = Some body_seed \<and>
   files (snd (backend_save_world py_json None seeded)) (backend_WORLD_DATA_PATH @ ''.bak'')
     = None \<and>
   body_seed \<noteq> dumps py_json JNull"
  by (simp add: save_world_eq backend_save_world_eq get_json_def saved_not_error
        seeded_simps dumps_null body_seed_def)

text \<open>
  C9 (the current document is not valid JSON): for a request that parses (and that the
  diagnostic lines of \<^verbatim>\<open>src/backend/server.py\<close> accept) and a backup path that can be
  opened for writing, SaveWorld answers with status 500 and the text of the parse failure,
  the main file holds what it held, and the backup file is empty whatever it held before.
\<close>

theorem corrupt_current_document:
  "(get_json J req = Inr doc \<and> files s WORLD_DATA_PATH = Some txt \<and> loads J txt = Inl e \<and>
    WORLD_DATA_PATH @ ''.bak'' \<notin> readonly s \<longrightarrow>
      fst (save_world J req s) = (500, JObj [(''error'', JStr (str_exn e))]) \<and>
      files (snd (save_world J req s)) WORLD_DATA_PATH = Some txt \<and>
      files (snd (save_world J req s)) (WORLD_DATA_PATH @ ''.bak'') = Some []) \<and>
   (get_json J req = Inr doc \<and> fst (log_received doc s) = Inr () \<and>
    files s backend_WORLD_DATA_PATH = Some txt \<and> loads J txt = Inl e \<and>
    backend_WORLD_DATA_PATH @ ''.bak'' \<notin> readonly s \<longrightarrow>
      fst (backend_save_world J req s) = (500, JObj [(''error'', JStr (str_exn e))]) \<and>
      files (snd (backend_save_world J req s)) backend_WORLD_DATA_PATH = Some txt \<and>
      files (snd (backend_save_world J req s)) (backend_WORLD_DATA_PATH @ ''.bak'') = Some [])"
proof (rule conjI)
  show "get_json J req = Inr doc \<and> files s WORLD_DATA_PATH = Some txt \<and> loads J txt = Inl e \<and>
    WORLD_DATA_PATH @ ''.bak'' \<notin> readonly s \<longrightarrow>
      fst (save_world J req s) = (500, JObj [(''error'', JStr (str_exn e))]) \<and>
      files (snd (save_world J req s)) WORLD_DATA_PATH = Some txt \<and>
      files (snd (save_world J req s)) (WORLD_DATA_PATH @ ''.bak'') = Some []"
    by (simp add: save_world_eq create_backup_eq error_response_def)
next
  show "get_json J req = Inr doc \<and> fst (log_received doc s) = Inr () \<and>
    files s backend_WORLD_DATA_PATH = Some txt \<and> loads J txt = Inl e \<and>
    backend_WORLD_DATA_PATH @ ''.bak'' \<notin> readonly s \<longrightarrow>
      fst (backend_save_world J req s) = (500, JObj [(''error'', JStr (str_exn e))]) \<and>
      files (snd (backend_save_world J req s)) backend_WORLD_DATA_PATH = Some txt \<and>
      files (snd (backend_save_world J req s)) (backend_WORLD_DATA_PATH @ ''.bak'') = Some []"
  proof (cases rule: log_received_cases [of doc s])
    case (raises e out)
    then show ?thesis by simp
  next
    case (returns out)
    then show ?thesis
      by (simp add: backend_save_world_eq backend_create_backup_eq bindE_def error_response_def)
  qed
qed

theorem corrupt_current_document_witness:
  "get_json py_json (Some body_a) = Inr doc_a \<and>
   fst (log_received doc_a corrupted) = Inr () \<and>
   loads py_json ''not json'' = Inl (JSONDecodeError ''Expecting value'') \<and>
   files corrupted WORLD_DATA_PATH = Some ''not json'' \<and>
   files corrupted (WORLD_DATA_PATH @ ''.bak'') = Some body_seed \<and>
   WORLD_DATA_PATH @ ''.bak'' \<notin> readonly corrupted \<and>
   fst (save_world py_json (Some body_a) corrupted)
     = (500, JObj [(''error'', JStr ''Expecting value'')]) \<and>
   files (snd (save_world py_json (Some body_a) corrupted)) WORLD_DATA_PATH
     = Some ''not json'' \<and>
   files (snd (save_world py_json (Some body_a) corrupted)) (WORLD_DATA_PATH @ ''.bak'')
     = Some [] \<and>
   files corrupted backend_WORLD_DATA_PATH = Some ''not json'' \<and>
   files corrupted (backend_WORLD_DATA_PATH @ ''.bak'') = Some body_seed \<and>
   backend_WORLD_DATA_PATH @ ''.bak'' \<notin> readonly corrupted \<and>
   fst (backend_save_world py_json (Some body_a) corrupted)
     = (500, JObj [(''error'', JStr ''Expecting value'')]) \<and>
   files (snd (backend_save_world py_json (Some body_a) corrupted)) backend_WORLD_DATA_PATH
     = Some ''not json'' \<and>
   files (snd (backend_save_world py_json (Some body_a) corrupted))
     (backend_WORLD_DATA_PATH @ ''.bak'') = Some []"
  using corrupt_current_document [of py_json "Some body_a" doc_a corrupted "''not json''"
      "JSONDecodeError ''Expecting value''"]
    get_json_body_a log_doc_a_ok [of corrupted] loads_not_json
  by (simp add: corrupted_simps)

text \<open>
  C10 (the two variants are equivalent), evaluated at two inputs on which they differ.
  With the seeded document and the body \<^verbatim>\<open>[]\<close>, \<^verbatim>\<open>src/server.py\<close> stores the document and
  answers 200, \<^verbatim>\<open>src/backend/server.py\<close> answers 500 and keeps the seeded one. With the
  document \<^verbatim>\<open>[]\<close> on disk and the posted document of the scenario, \<^verbatim>\<open>src/server.py\<close>
  backs up, stores and answers 200, \<^verbatim>\<open>src/backend/server.py\<close> answers 500 (line 39),
  keeps the main file and leaves an empty backup.
\<close>

theorem variants_differ:
  "fst (save_world py_json (Some ''[]'') seeded) = saved_response \<and>
   files (snd (save_world py_json (Some ''[]'') seeded)) WORLD_DATA_PATH = Some ''[]'' \<and>
   fst (backend_save_world py_json (Some ''[]'') seeded)
     = (500, JObj [(''error'', JStr (sq ''list'' @ '' object has no attribute '' @ sq ''get''))]) \<and>
   files (snd (backend_save_world py_json (Some ''[]'') seeded)) backend_WORLD_DATA_PATH
     = Some body_seed \<and>
   fst (save_world py_json (Some body_a) seeded_array) = saved_response \<and>
   files (snd (save_world py_json (Some body_a) seeded_array)) WORLD_DATA_PATH
     = Some (dumps py_json doc_a) \<and>
   files (snd (save_world py_json (Some body_a) seeded_array)) (WORLD_DATA_PATH @ ''.bak'')
     = Some ''[]'' \<and>
   fst (backend_save_world py_json (Some body_a) seeded_array)
     = (500, JObj [(''error'', JStr (sq ''list'' @ '' object has no attribute '' @ sq ''get''))]) \<and>
   files (snd (backend_save_world py_json (Some body_a) seeded_array)) backend_WORLD_DATA_PATH
     = Some ''[]'' \<and>
   files (snd (backend_save_world py_json (Some body_a) seeded_array))
     (backend_WORLD_DATA_PATH @ ''.bak'') = Some []"
  by (simp add: save_world_eq create_backup_eq write_world_eq
        backend_save_world_eq backend_create_backup_eq get_json_empty_array get_json_body_a
        log_received_doc_a log_received_array count_of_array bindE_def error_response_def
        seeded_simps seeded_array_simps loads_body_seed loads_empty_array dumps_empty_array)

end
